theory Spec2Isabelle
  imports Main
begin

section \<open>Data model of main.go\<close>

text \<open>
  A Go \<open>error\<close> is represented by the text its \<open>Error()\<close> method returns, which is
  what \<open>%v\<close> prints. A Go \<open>string\<close> is a \<open>char list\<close> of bytes.
\<close>

type_synonym error = string

record Config =
  Port :: string
  OpenAIKey :: string
  MinIOURL :: string
  MinIOKey :: string
  MinIOSecret :: string

record ChatRequest =
  Message :: string

record ChatResponse =
  Reply :: string

record FileUploadRequest =
  BucketName :: string
  FileName :: string
  Content :: string

record FileUploadResponse =
  Success :: bool
  Message :: string

section \<open>The libraries the handlers call\<close>

subsection \<open>huma: status errors and the status of a reply\<close>

text \<open>
  \<open>huma.Error400BadRequest(msg, errs...)\<close> and \<open>huma.Error500InternalServerError(msg, errs...)\<close>
  build an error model that records the HTTP status, the message as its detail and the
  text of every wrapped error. A handler that returns an error is answered with that
  status; a handler that returns a body and a nil error is answered with 200.
\<close>

record ErrorModel =
  Status :: nat
  Detail :: string
  Errors :: "error list"

definition Error400BadRequest :: "string \<Rightarrow> error list \<Rightarrow> ErrorModel" where
  "Error400BadRequest msg errs = \<lparr>Status = 400, Detail = msg, Errors = errs\<rparr>"

definition Error500InternalServerError :: "string \<Rightarrow> error list \<Rightarrow> ErrorModel" where
  "Error500InternalServerError msg errs = \<lparr>Status = 500, Detail = msg, Errors = errs\<rparr>"

definition http_status :: "ErrorModel + 'b \<Rightarrow> nat" where
  "http_status r = (case r of Inl e \<Rightarrow> Status e | Inr b \<Rightarrow> 200)"

subsection \<open>go-openai: the chat completion types\<close>

record ChatCompletionMessage =
  Role :: string
  Content :: string

record ChatCompletionRequest =
  Model :: string
  Messages :: "ChatCompletionMessage list"

record ChatCompletionChoice =
  Message :: ChatCompletionMessage

record ChatCompletionResponse =
  Choices :: "ChatCompletionChoice list"

definition GPT3Dot5Turbo :: string where
  "GPT3Dot5Turbo = ''gpt-3.5-turbo''"

definition ChatMessageRoleUser :: string where
  "ChatMessageRoleUser = ''user''"

subsection \<open>minio-go: credentials and options\<close>

record Credentials =
  AccessKeyID :: string
  SecretAccessKey :: string
  SessionToken :: string

definition NewStaticV4 :: "string \<Rightarrow> string \<Rightarrow> string \<Rightarrow> Credentials" where
  "NewStaticV4 key secret token =
     \<lparr>AccessKeyID = key, SecretAccessKey = secret, SessionToken = token\<rparr>"

record Options =
  Creds :: Credentials
  Secure :: bool

subsection \<open>The providers and the record of the calls made to them\<close>

text \<open>
  The two remote services are outside the program. A client is the collection of the
  methods the handlers use; each method reads and changes the state \<open>'s\<close> of the remote
  side and returns what the Go method returns (an error, or a value). Every call made
  through a client is appended to the list \<open>calls\<close> of the world, so that "the provider
  is not called" and "the provider is called once" are statements about that list.
  \<open>PutObject\<close> receives the bucket, the object name, the bytes of the reader, the size
  and the content type of its options.
\<close>

datatype call =
  CallCreateChatCompletion ChatCompletionRequest
| CallBucketExists string
| CallMakeBucket string
| CallPutObject string string string int string

record 's world =
  remote :: 's
  calls :: "call list"

record 's openai_Client =
  CreateChatCompletion :: "ChatCompletionRequest \<Rightarrow> 's \<Rightarrow> (error + ChatCompletionResponse) \<times> 's"

record 's minio_Client =
  BucketExists :: "string \<Rightarrow> 's \<Rightarrow> (error + bool) \<times> 's"
  MakeBucket :: "string \<Rightarrow> 's \<Rightarrow> error option \<times> 's"
  PutObject :: "string \<Rightarrow> string \<Rightarrow> string \<Rightarrow> int \<Rightarrow> string \<Rightarrow> 's \<Rightarrow> error option \<times> 's"

definition call_CreateChatCompletion ::
  "'s openai_Client \<Rightarrow> ChatCompletionRequest \<Rightarrow> 's world
     \<Rightarrow> (error + ChatCompletionResponse) \<times> 's world" where
  "call_CreateChatCompletion c req w =
     (case CreateChatCompletion c req (remote w) of
        (r, s') \<Rightarrow> (r, \<lparr>remote = s', calls = calls w @ [CallCreateChatCompletion req]\<rparr>))"

definition call_BucketExists ::
  "'s minio_Client \<Rightarrow> string \<Rightarrow> 's world \<Rightarrow> (error + bool) \<times> 's world" where
  "call_BucketExists c bucket w =
     (case BucketExists c bucket (remote w) of
        (r, s') \<Rightarrow> (r, \<lparr>remote = s', calls = calls w @ [CallBucketExists bucket]\<rparr>))"

definition call_MakeBucket ::
  "'s minio_Client \<Rightarrow> string \<Rightarrow> 's world \<Rightarrow> error option \<times> 's world" where
  "call_MakeBucket c bucket w =
     (case MakeBucket c bucket (remote w) of
        (r, s') \<Rightarrow> (r, \<lparr>remote = s', calls = calls w @ [CallMakeBucket bucket]\<rparr>))"

definition call_PutObject ::
  "'s minio_Client \<Rightarrow> string \<Rightarrow> string \<Rightarrow> string \<Rightarrow> int \<Rightarrow> string \<Rightarrow> 's world
     \<Rightarrow> error option \<times> 's world" where
  "call_PutObject c bucket name bytes objectSize ctype w =
     (case PutObject c bucket name bytes objectSize ctype (remote w) of
        (r, s') \<Rightarrow>
          (r, \<lparr>remote = s', calls = calls w @ [CallPutObject bucket name bytes objectSize ctype]\<rparr>))"

section \<open>The package variables\<close>

text \<open>
  \<open>config\<close>, \<open>openaiClient\<close> and \<open>minioClient\<close> are package-level variables; a nil client
  pointer is \<open>None\<close>. The handlers read them and never assign them.
\<close>

record 's globals =
  config :: Config
  openaiClient :: "'s openai_Client option"
  minioClient :: "'s minio_Client option"

section \<open>The handlers\<close>

text \<open>
  The health body is a Go \<open>map[string]interface{}\<close> whose values are a string, a
  \<open>map[string]bool\<close> and a \<open>map[string]string\<close>.
\<close>

datatype any =
  AnyString string
| AnyBoolMap "string \<rightharpoonup> bool"
| AnyStringMap "string \<rightharpoonup> string"

text \<open>
  Each handler is the function literal that its \<open>register...Endpoint\<close> function passes to
  \<open>huma.Register\<close>. It returns the pair of Go results as a sum (the error on the left,
  the body on the right) together with the world after its calls.
\<close>

definition registerChatEndpoint_handler ::
  "'s globals \<Rightarrow> ChatRequest \<Rightarrow> 's world \<Rightarrow> (ErrorModel + ChatResponse) \<times> 's world" where
  "registerChatEndpoint_handler g input w =
     (case openaiClient g of
        None \<Rightarrow> (Inl (Error400BadRequest ''OpenAI client not configured'' []), w)
      | Some c \<Rightarrow>
          (case call_CreateChatCompletion c
                  \<lparr>Model = GPT3Dot5Turbo,
                   Messages = [\<lparr>Role = ChatMessageRoleUser,
                                Content = ChatRequest.Message input\<rparr>]\<rparr> w of
             (Inl err, w') \<Rightarrow>
               (Inl (Error500InternalServerError ''Failed to get OpenAI response'' [err]), w')
           | (Inr resp, w') \<Rightarrow>
               (let reply =
                      (if length (Choices resp) > 0
                       then ChatCompletionMessage.Content
                              (ChatCompletionChoice.Message (Choices resp ! 0))
                       else ''No response'')
                in (Inr \<lparr>Reply = reply\<rparr>, w'))))"

definition registerFileUploadEndpoint_handler ::
  "'s globals \<Rightarrow> FileUploadRequest \<Rightarrow> 's world
     \<Rightarrow> (ErrorModel + FileUploadResponse) \<times> 's world" where
  "registerFileUploadEndpoint_handler g input w =
     (case minioClient g of
        None \<Rightarrow> (Inr \<lparr>Success = False, Message = ''MinIO client not configured''\<rparr>, w)
      | Some c \<Rightarrow>
          (case call_BucketExists c (BucketName input) w of
             (Inl err, w1) \<Rightarrow>
               (Inr \<lparr>Success = False,
                     Message = ''Failed to check bucket existence: '' @ err\<rparr>, w1)
           | (Inr exists, w1) \<Rightarrow>
               (case (if \<not> exists then call_MakeBucket c (BucketName input) w1
                      else (None, w1)) of
                  (Some err, w2) \<Rightarrow>
                    (Inr \<lparr>Success = False,
                          Message = ''Failed to create bucket: '' @ err\<rparr>, w2)
                | (None, w2) \<Rightarrow>
                    (case call_PutObject c (BucketName input) (FileName input)
                            (FileUploadRequest.Content input)
                            (int (length (FileUploadRequest.Content input)))
                            ''text/plain'' w2 of
                       (Some err, w3) \<Rightarrow>
                         (Inr \<lparr>Success = False,
                               Message = ''Failed to upload file: '' @ err\<rparr>, w3)
                     | (None, w3) \<Rightarrow>
                         (Inr \<lparr>Success = True,
                               Message = ''File '' @ FileName input
                                 @ '' uploaded successfully to bucket ''
                                 @ BucketName input\<rparr>, w3)))))"

definition registerHealthEndpoint_handler ::
  "'s globals \<Rightarrow> 's world \<Rightarrow> (ErrorModel + (string \<rightharpoonup> any)) \<times> 's world" where
  "registerHealthEndpoint_handler g w =
     (let status =
            [''status'' \<mapsto> AnyString ''healthy'',
             ''services'' \<mapsto> AnyBoolMap [''openai'' \<mapsto> openaiClient g \<noteq> None,
                                         ''minio'' \<mapsto> minioClient g \<noteq> None],
             ''config'' \<mapsto> AnyStringMap [''port'' \<mapsto> Port (config g),
                                         ''minio_url'' \<mapsto> MinIOURL (config g)]]
      in (Inr status, w))"

section \<open>Start-up\<close>

subsection \<open>initClients\<close>

text \<open>
  The two constructors \<open>openai.NewClient\<close> and \<open>minio.New\<close> are parameters.
  \<open>openai.NewClient\<close> always returns a client. \<open>minio.New\<close> returns a client or an
  error; the Go statement \<open>minioClient, err = minio.New(...)\<close> assigns the returned pointer,
  which is nil when there is an error. The function returns the updated package variables
  and the lines it logs; it never ends the process.
\<close>

definition initClients ::
  "(string \<Rightarrow> 's openai_Client) \<Rightarrow> (string \<Rightarrow> Options \<Rightarrow> error + 's minio_Client)
     \<Rightarrow> 's globals \<Rightarrow> 's globals \<times> string list" where
  "initClients openai_NewClient minio_New g =
     (let (g1, log1) =
            (if OpenAIKey (config g) \<noteq> ''''
             then (g\<lparr>openaiClient := Some (openai_NewClient (OpenAIKey (config g)))\<rparr>,
                   [''OpenAI client initialized''])
             else (g, [''OpenAI API key not provided, chat functionality will be disabled'']));
          (g2, log2) =
            (if MinIOKey (config g1) \<noteq> '''' \<and> MinIOSecret (config g1) \<noteq> ''''
             then (case minio_New (MinIOURL (config g1))
                          \<lparr>Creds = NewStaticV4 (MinIOKey (config g1))
                                     (MinIOSecret (config g1)) '''',
                           Secure = False\<rparr> of
                     Inl err \<Rightarrow>
                       (g1\<lparr>minioClient := None\<rparr>,
                        [''Failed to initialize MinIO client: '' @ err])
                   | Inr c \<Rightarrow>
                       (g1\<lparr>minioClient := Some c\<rparr>, [''MinIO client initialized'']))
             else (g1, [''MinIO credentials not provided, file upload functionality will be disabled'']))
      in (g2, log1 @ log2))"

subsection \<open>viper\<close>

text \<open>
  Modelled from the spec: the configuration library viper is not part of the sources.
  The spec gives the order of its layers: a value is "sourced from an optional file and
  environment variables with a fixed prefix, environment taking precedence", over the
  defaults ("defaults < file < environment"). The model keeps what the calls of
  \<open>initConfig\<close> set: the defaults, the prefix, the automatic reading of the environment
  and the key replacer, and the settings read from the file. The environment variable of
  a key is the upper-case form of prefix, underscore and key, passed through the replacer;
  a variable set to the empty string counts as unset. The operating system is a record of
  the environment and of what reading the configuration file gives: its top-level
  settings, or the error of \<open>ReadInConfig\<close> when no file is found.

  Where the spec is silent the model follows the library: \<open>AllKeys\<close> are the keys that
  have a default or a value in the file (\<open>AutomaticEnv\<close> registers no key, and
  \<open>initConfig\<close> binds none), and \<open>Unmarshal\<close> decodes the keys of \<open>AllKeys\<close> only.
\<close>

record os =
  environ :: "string \<rightharpoonup> string"
  configFile :: "error + (string \<rightharpoonup> string)"

record Viper =
  configName :: string
  configType :: string
  configPaths :: "string list"
  defaults :: "string \<rightharpoonup> string"
  envPrefix :: string
  automaticEnvApplied :: bool
  envKeyReplacer :: "(string \<Rightarrow> string) option"
  fileSettings :: "string \<rightharpoonup> string"

definition viper_New :: Viper where
  "viper_New =
     \<lparr>configName = '''', configType = '''', configPaths = [], defaults = Map.empty,
      envPrefix = '''', automaticEnvApplied = False, envKeyReplacer = None,
      fileSettings = Map.empty\<rparr>"

definition SetConfigName :: "string \<Rightarrow> Viper \<Rightarrow> Viper" where
  "SetConfigName n v = v\<lparr>configName := n\<rparr>"

definition SetConfigType :: "string \<Rightarrow> Viper \<Rightarrow> Viper" where
  "SetConfigType t v = v\<lparr>configType := t\<rparr>"

definition AddConfigPath :: "string \<Rightarrow> Viper \<Rightarrow> Viper" where
  "AddConfigPath p v = v\<lparr>configPaths := configPaths v @ [p]\<rparr>"

definition SetDefault :: "string \<Rightarrow> string \<Rightarrow> Viper \<Rightarrow> Viper" where
  "SetDefault k x v = v\<lparr>defaults := (defaults v)(k \<mapsto> x)\<rparr>"

definition SetEnvPrefix :: "string \<Rightarrow> Viper \<Rightarrow> Viper" where
  "SetEnvPrefix p v = v\<lparr>envPrefix := p\<rparr>"

definition AutomaticEnv :: "Viper \<Rightarrow> Viper" where
  "AutomaticEnv v = v\<lparr>automaticEnvApplied := True\<rparr>"

definition SetEnvKeyReplacer :: "(string \<Rightarrow> string) \<Rightarrow> Viper \<Rightarrow> Viper" where
  "SetEnvKeyReplacer r v = v\<lparr>envKeyReplacer := Some r\<rparr>"

text \<open>
  \<open>strings.NewReplacer(old, new).Replace\<close> for an \<open>old\<close> of one byte, as \<open>initConfig\<close>
  uses it; \<open>strings.ToUpper\<close> on ASCII letters.
\<close>

definition NewReplacer :: "string \<Rightarrow> string \<Rightarrow> string \<Rightarrow> string" where
  "NewReplacer old new s = concat (map (\<lambda>c. if [c] = old then new else [c]) s)"

definition ToUpper_byte :: "char \<Rightarrow> char" where
  "ToUpper_byte c =
     (let n = (of_char c :: nat) in if 97 \<le> n \<and> n \<le> 122 then char_of (n - 32) else c)"

definition ToUpper :: "string \<Rightarrow> string" where
  "ToUpper s = map ToUpper_byte s"

definition mergeWithEnvPrefix :: "Viper \<Rightarrow> string \<Rightarrow> string" where
  "mergeWithEnvPrefix v k =
     (if envPrefix v \<noteq> '''' then ToUpper (envPrefix v @ ''_'' @ k) else ToUpper k)"

definition getEnv :: "Viper \<Rightarrow> os \<Rightarrow> string \<Rightarrow> string option" where
  "getEnv v sys k =
     (let k' = (case envKeyReplacer v of None \<Rightarrow> k | Some r \<Rightarrow> r k)
      in case environ sys k' of
           None \<Rightarrow> None
         | Some x \<Rightarrow> if x \<noteq> '''' then Some x else None)"

text \<open>
  Modelled from the spec: the lookup of a key in the library, which is not part of the
  sources. The layers are searched in the spec's order of precedence: the environment
  first, then the settings of the file, then the defaults.
\<close>

definition find_key :: "Viper \<Rightarrow> os \<Rightarrow> string \<Rightarrow> string option" where
  "find_key v sys k =
     (case (if automaticEnvApplied v then getEnv v sys (mergeWithEnvPrefix v k) else None) of
        Some x \<Rightarrow> Some x
      | None \<Rightarrow>
          (case fileSettings v k of
             Some x \<Rightarrow> Some x
           | None \<Rightarrow> defaults v k))"

definition ReadInConfig :: "os \<Rightarrow> Viper \<Rightarrow> error option \<times> Viper" where
  "ReadInConfig sys v =
     (case configFile sys of
        Inl err \<Rightarrow> (Some err, v)
      | Inr settings \<Rightarrow> (None, v\<lparr>fileSettings := settings\<rparr>))"

text \<open>
  Modelled from the spec: \<open>AllKeys\<close> and \<open>Unmarshal\<close> of the library, which is not part of
  the sources. \<open>Unmarshal\<close> decodes into the fields of \<open>Config\<close> by their \<open>mapstructure\<close>
  tags; each key of \<open>AllKeys\<close> is looked up through the layers, and a field whose key is
  not among them keeps what it held. The spec does not say which keys are decoded; this
  part is the library's behaviour. With settings that are strings \<open>Unmarshal\<close> reports no
  error.
\<close>

definition AllKeys :: "Viper \<Rightarrow> string set" where
  "AllKeys v = dom (fileSettings v) \<union> dom (defaults v)"

definition Unmarshal :: "os \<Rightarrow> Viper \<Rightarrow> Config \<Rightarrow> error option \<times> Config" where
  "Unmarshal sys v cfg =
     (let field = (\<lambda>k old. if k \<in> AllKeys v
                             then (case find_key v sys k of None \<Rightarrow> old | Some x \<Rightarrow> x)
                             else old)
      in (None,
          \<lparr>Port = field ''port'' (Port cfg),
           OpenAIKey = field ''openai_key'' (OpenAIKey cfg),
           MinIOURL = field ''minio_url'' (MinIOURL cfg),
           MinIOKey = field ''minio_key'' (MinIOKey cfg),
           MinIOSecret = field ''minio_secret'' (MinIOSecret cfg)\<rparr>))"

subsection \<open>initConfig\<close>

text \<open>
  \<open>initConfig\<close> works on the library's global instance and on the variable \<open>config\<close>.
  \<open>log.Fatalf\<close> ends the process: the result is then \<open>Inl\<close> of the logged line. Otherwise
  the result is the instance, the configuration and the logged lines.
\<close>

definition initConfig :: "os \<Rightarrow> Viper \<Rightarrow> Config \<Rightarrow> string + (Viper \<times> Config \<times> string list)" where
  "initConfig sys v0 cfg =
     (let v1 = SetConfigName ''config'' v0;
          v2 = SetConfigType ''yaml'' v1;
          v3 = AddConfigPath ''.'' v2;
          v4 = AddConfigPath ''./config'' v3;
          v5 = SetDefault ''port'' ''8080'' v4;
          v6 = SetDefault ''minio_url'' ''localhost:9000'' v5;
          v7 = SetEnvPrefix ''APP'' v6;
          v8 = AutomaticEnv v7;
          v9 = SetEnvKeyReplacer (NewReplacer ''.'' ''_'') v8;
          (rerr, v10) = ReadInConfig sys v9;
          log1 = (case rerr of
                    Some err \<Rightarrow>
                      [''Config file not found, using defaults and environment variables: ''
                         @ err]
                  | None \<Rightarrow> [])
      in case Unmarshal sys v10 cfg of
           (Some err, cfg') \<Rightarrow> Inl (''Failed to unmarshal config: '' @ err)
         | (None, cfg') \<Rightarrow>
             Inr (v10, cfg',
                  log1 @ [''Configuration loaded: Port='' @ Port cfg'
                            @ '', MinIO URL='' @ MinIOURL cfg']))"

section \<open>Concrete providers and inputs\<close>

text \<open>
  Providers to run the handlers on. A scripted client answers every call with a fixed
  result and has no state. The in-memory store keeps its buckets as a list of names with
  their objects; its calls do not fail, except a write into a bucket that does not exist.
\<close>

definition scripted_openai :: "(error + ChatCompletionResponse) \<Rightarrow> unit openai_Client" where
  "scripted_openai r = \<lparr>CreateChatCompletion = (\<lambda>req s. (r, s))\<rparr>"

definition scripted_minio ::
  "(error + bool) \<Rightarrow> error option \<Rightarrow> error option \<Rightarrow> unit minio_Client" where
  "scripted_minio ex mk put =
     \<lparr>BucketExists = (\<lambda>b s. (ex, s)),
      MakeBucket = (\<lambda>b s. (mk, s)),
      PutObject = (\<lambda>b n bytes sz ct s. (put, s))\<rparr>"

type_synonym store = "(string \<times> (string \<times> string) list) list"

definition store_minio :: "store minio_Client" where
  "store_minio =
     \<lparr>BucketExists = (\<lambda>b s. (Inr (map_of s b \<noteq> None), s)),
      MakeBucket = (\<lambda>b s. (None, (b, []) # s)),
      PutObject = (\<lambda>b n bytes sz ct s.
         (case map_of s b of
            None \<Rightarrow> (Some ''The specified bucket does not exist'', s)
          | Some objs \<Rightarrow> (None, (b, (n, bytes) # objs) # s)))\<rparr>"

definition no_config :: Config where
  "no_config =
     \<lparr>Port = ''8080'', OpenAIKey = '''', MinIOURL = ''localhost:9000'',
      MinIOKey = '''', MinIOSecret = ''''\<rparr>"

definition test_config :: Config where
  "test_config =
     \<lparr>Port = ''8080'', OpenAIKey = ''test-key'', MinIOURL = ''localhost:9000'',
      MinIOKey = ''test-access-key'', MinIOSecret = ''test-secret-key''\<rparr>"

definition no_clients :: "'s globals" where
  "no_clients = \<lparr>config = no_config, openaiClient = None, minioClient = None\<rparr>"

definition hello_upload :: FileUploadRequest where
  "hello_upload = \<lparr>BucketName = ''test'', FileName = ''hello.txt'', Content = ''Hello World!''\<rparr>"

definition quiet :: "'s \<Rightarrow> 's world" where
  "quiet s = \<lparr>remote = s, calls = []\<rparr>"

definition refusing_New :: "string \<Rightarrow> Options \<Rightarrow> error + unit minio_Client" where
  "refusing_New url opts = Inl ''Endpoint url cannot have fully qualified paths.''"

text \<open>
  Package variables: after \<open>initClients\<close> has run from nil clients with constructors that
  succeed, and with one client set directly, as the tests set the variables.
\<close>

definition started :: "Config \<Rightarrow> unit globals" where
  "started cfg =
     fst (initClients (\<lambda>key. scripted_openai (Inr \<lparr>Choices = []\<rparr>))
            (\<lambda>url opts. Inr (scripted_minio (Inr True) None None))
            \<lparr>config = cfg, openaiClient = None, minioClient = None\<rparr>)"

definition with_minio :: "'s minio_Client \<Rightarrow> 's globals" where
  "with_minio c = \<lparr>config = test_config, openaiClient = None, minioClient = Some c\<rparr>"

definition with_store :: "store globals" where
  "with_store = with_minio store_minio"

definition with_openai :: "'s openai_Client \<Rightarrow> 's globals" where
  "with_openai c = \<lparr>config = test_config, openaiClient = Some c, minioClient = None\<rparr>"

definition test_upload :: FileUploadRequest where
  "test_upload =
     \<lparr>BucketName = ''test-bucket'', FileName = ''test.txt'', Content = ''Hello, world!''\<rparr>"

definition hello_chat :: ChatRequest where
  "hello_chat = \<lparr>ChatRequest.Message = ''Hello!''\<rparr>"

definition two_choices :: ChatCompletionResponse where
  "two_choices =
     \<lparr>Choices = [\<lparr>ChatCompletionChoice.Message = \<lparr>Role = ''assistant'', Content = ''Hi there''\<rparr>\<rparr>,
                 \<lparr>ChatCompletionChoice.Message = \<lparr>Role = ''assistant'', Content = ''Good day''\<rparr>\<rparr>]\<rparr>"

definition override_os :: os where
  "override_os =
     \<lparr>environ = [''APP_PORT'' \<mapsto> ''9090''], configFile = Inr [''port'' \<mapsto> ''8080'']\<rparr>"

definition bare_os :: os where
  "bare_os = \<lparr>environ = Map.empty, configFile = Inl ''Config File Not Found''\<rparr>"

definition env_only_os :: os where
  "env_only_os =
     \<lparr>environ = [''APP_PORT'' \<mapsto> ''9090'', ''APP_OPENAI_KEY'' \<mapsto> ''sk-test'',
                 ''APP_MINIO_KEY'' \<mapsto> ''access'', ''APP_MINIO_SECRET'' \<mapsto> ''secret''],
      configFile = Inl ''Config File Not Found''\<rparr>"

definition file_and_env_os :: os where
  "file_and_env_os =
     \<lparr>environ = [''APP_OPENAI_KEY'' \<mapsto> ''sk-test''],
      configFile = Inr [''openai_key'' \<mapsto> ''sk-file'']\<rparr>"

definition zero_config :: Config where
  "zero_config =
     \<lparr>Port = '''', OpenAIKey = '''', MinIOURL = '''', MinIOKey = '''', MinIOSecret = ''''\<rparr>"

section \<open>Reading a health body, an environment and a configuration file\<close>

text \<open>
  What a reader of the health body finds under its three keys; the value an environment
  gives for a variable (none when the variable is unset or empty); the value a
  configuration file gives for a key (none when no file was read).
\<close>

definition status_of :: "(string \<rightharpoonup> any) \<Rightarrow> string option" where
  "status_of body = (case body ''status'' of Some (AnyString s) \<Rightarrow> Some s | _ \<Rightarrow> None)"

definition services_of :: "(string \<rightharpoonup> any) \<Rightarrow> (string \<rightharpoonup> bool)" where
  "services_of body = (case body ''services'' of Some (AnyBoolMap m) \<Rightarrow> m | _ \<Rightarrow> Map.empty)"

definition config_of :: "(string \<rightharpoonup> any) \<Rightarrow> (string \<rightharpoonup> string)" where
  "config_of body = (case body ''config'' of Some (AnyStringMap m) \<Rightarrow> m | _ \<Rightarrow> Map.empty)"

definition set_env :: "(string \<rightharpoonup> string) \<Rightarrow> string \<Rightarrow> string option" where
  "set_env env name = (case env name of None \<Rightarrow> None | Some x \<Rightarrow> if x \<noteq> '''' then Some x else None)"

definition file_value :: "error + (string \<rightharpoonup> string) \<Rightarrow> string \<Rightarrow> string option" where
  "file_value file k = (case file of Inl err \<Rightarrow> None | Inr settings \<Rightarrow> settings k)"

text \<open>
  The library instance that the calls of \<open>initConfig\<close> build up to \<open>ReadInConfig\<close>, with the
  file settings as a parameter, and the configuration \<open>initConfig\<close> leaves in \<open>config\<close>
  when it starts from a fresh instance.
\<close>

definition configured :: "(string \<rightharpoonup> string) \<Rightarrow> Viper" where
  "configured settings =
     \<lparr>configName = ''config'', configType = ''yaml'', configPaths = [''.'', ''./config''],
      defaults = [''port'' \<mapsto> ''8080'', ''minio_url'' \<mapsto> ''localhost:9000''],
      envPrefix = ''APP'', automaticEnvApplied = True,
      envKeyReplacer = Some (NewReplacer ''.'' ''_''), fileSettings = settings\<rparr>"

abbreviation loaded_config :: "os \<Rightarrow> Config \<Rightarrow> Config" where
  "loaded_config sys cfg \<equiv> fst (snd (projr (initConfig sys viper_New cfg)))"

section \<open>Shorthand for the requests the handlers send\<close>

text \<open>
  The chat completion request built from a chat request (one message of the user role, the
  fixed model), and the \<open>PutObject\<close> call made for an upload request.
\<close>

abbreviation chat_request :: "ChatRequest \<Rightarrow> ChatCompletionRequest" where
  "chat_request input \<equiv>
     \<lparr>Model = GPT3Dot5Turbo,
      Messages = [\<lparr>Role = ChatMessageRoleUser, Content = ChatRequest.Message input\<rparr>]\<rparr>"

abbreviation put_call :: "FileUploadRequest \<Rightarrow> call" where
  "put_call input \<equiv>
     CallPutObject (BucketName input) (FileName input) (FileUploadRequest.Content input)
       (int (length (FileUploadRequest.Content input))) ''text/plain''"

section \<open>The upload handler, branch by branch\<close>

text \<open>
  One lemma for each way through the handler, giving the reply and the world it leaves.
  In \<open>upload_write\<close> the state \<open>s2\<close> is the one in which the write starts: the state
  after the check when the bucket exists, the state after a successful creation otherwise.
\<close>

lemma upload_no_client:
  "minioClient g = None \<Longrightarrow>
   registerFileUploadEndpoint_handler g input w =
     (Inr \<lparr>Success = False, Message = ''MinIO client not configured''\<rparr>, w)"
  by (simp add: registerFileUploadEndpoint_handler_def)

lemma upload_check_fails:
  assumes "minioClient g = Some c"
    and "BucketExists c (BucketName input) (remote w) = (Inl e, s1)"
  shows "registerFileUploadEndpoint_handler g input w =
     (Inr \<lparr>Success = False, Message = ''Failed to check bucket existence: '' @ e\<rparr>,
      \<lparr>remote = s1, calls = calls w @ [CallBucketExists (BucketName input)]\<rparr>)"
  using assms by (simp add: registerFileUploadEndpoint_handler_def call_BucketExists_def)

lemma upload_create_fails:
  assumes "minioClient g = Some c"
    and "BucketExists c (BucketName input) (remote w) = (Inr False, s1)"
    and "MakeBucket c (BucketName input) s1 = (Some e, s2)"
  shows "registerFileUploadEndpoint_handler g input w =
     (Inr \<lparr>Success = False, Message = ''Failed to create bucket: '' @ e\<rparr>,
      \<lparr>remote = s2,
       calls = calls w @ [CallBucketExists (BucketName input), CallMakeBucket (BucketName input)]\<rparr>)"
  using assms
  by (simp add: registerFileUploadEndpoint_handler_def call_BucketExists_def call_MakeBucket_def)

lemma upload_write:
  assumes "minioClient g = Some c"
    and "BucketExists c (BucketName input) (remote w) = (Inr ex, s1)"
    and "if ex then s2 = s1 else MakeBucket c (BucketName input) s1 = (None, s2)"
    and "PutObject c (BucketName input) (FileName input) (FileUploadRequest.Content input)
           (int (length (FileUploadRequest.Content input))) ''text/plain'' s2 = (r, s3)"
  shows "registerFileUploadEndpoint_handler g input w =
     (Inr (case r of
             Some e \<Rightarrow> \<lparr>Success = False, Message = ''Failed to upload file: '' @ e\<rparr>
           | None \<Rightarrow> \<lparr>Success = True,
                       Message = ''File '' @ FileName input
                         @ '' uploaded successfully to bucket '' @ BucketName input\<rparr>),
      \<lparr>remote = s3,
       calls = calls w @ [CallBucketExists (BucketName input)]
                 @ (if ex then [] else [CallMakeBucket (BucketName input)])
                 @ [put_call input]\<rparr>)"
  using assms
  by (cases ex; cases r)
     (simp_all add: registerFileUploadEndpoint_handler_def call_BucketExists_def
        call_MakeBucket_def call_PutObject_def)

lemma upload_status_200:
  "http_status (fst (registerFileUploadEndpoint_handler g input w)) = 200"
  by (simp add: registerFileUploadEndpoint_handler_def http_status_def
      split: option.split prod.split sum.split)

lemma upload_call_shapes:
  assumes client: "minioClient g = Some c"
  shows "calls (snd (registerFileUploadEndpoint_handler g input w)) \<in>
           {calls w @ [CallBucketExists (BucketName input)],
            calls w @ [CallBucketExists (BucketName input), CallMakeBucket (BucketName input)],
            calls w @ [CallBucketExists (BucketName input), put_call input],
            calls w @ [CallBucketExists (BucketName input), CallMakeBucket (BucketName input),
                       put_call input]}"
proof -
  obtain r1 s1 where check: "BucketExists c (BucketName input) (remote w) = (r1, s1)"
    by (cases "BucketExists c (BucketName input) (remote w)")
  show ?thesis
  proof (cases r1)
    case (Inl e)
    with client check show ?thesis by (simp add: upload_check_fails)
  next
    case (Inr ex)
    obtain r2 s2 where make: "MakeBucket c (BucketName input) s1 = (r2, s2)"
      by (cases "MakeBucket c (BucketName input) s1")
    show ?thesis
    proof (cases "\<not> ex \<and> r2 \<noteq> None")
      case True
      then obtain e where "r2 = Some e" and "ex = False" by auto
      with client check make Inr show ?thesis by (simp add: upload_create_fails)
    next
      case False
      define s2' where "s2' = (if ex then s1 else s2)"
      obtain r3 s3 where put:
        "PutObject c (BucketName input) (FileName input) (FileUploadRequest.Content input)
           (int (length (FileUploadRequest.Content input))) ''text/plain'' s2' = (r3, s3)"
        by (cases "PutObject c (BucketName input) (FileName input)
                     (FileUploadRequest.Content input)
                     (int (length (FileUploadRequest.Content input))) ''text/plain'' s2'")
      from False make have step: "if ex then s2' = s1
          else MakeBucket c (BucketName input) s1 = (None, s2')"
        by (auto simp: s2'_def)
      from check Inr have check': "BucketExists c (BucketName input) (remote w) = (Inr ex, s1)"
        by simp
      show ?thesis
        by (simp add: upload_write [OF client check' step put])
    qed
  qed
qed

section \<open>Upload without a storage client\<close>

lemma initClients_without_credentials:
  assumes "minioClient g = None"
    and "MinIOKey (config g) = '''' \<or> MinIOSecret (config g) = ''''"
  shows "minioClient (fst (initClients openai_NewClient minio_New g)) = None"
  using assms by (auto simp: initClients_def Let_def)

text \<open>
  \<^bold>\<open>C1\<close> (as amended). When no storage client is configured, the upload handler answers
  every request with HTTP 200 and the body \<open>success: false\<close>,
  \<open>message: "MinIO client not configured"\<close>, and leaves the world as it was: it makes no
  call to the storage provider. This holds whenever the variable \<open>minioClient\<close> is nil, and
  in particular after \<open>initClients\<close> has run on a nil client with an empty storage key or an
  empty storage secret.
\<close>

theorem upload_without_client:
  "(minioClient g = None \<longrightarrow>
      registerFileUploadEndpoint_handler g input w =
        (Inr \<lparr>Success = False, Message = ''MinIO client not configured''\<rparr>, w)
      \<and> http_status (fst (registerFileUploadEndpoint_handler g input w)) = 200
      \<and> calls (snd (registerFileUploadEndpoint_handler g input w)) = calls w)
   \<and> (minioClient g' = None \<and> (MinIOKey (config g') = '''' \<or> MinIOSecret (config g') = '''') \<longrightarrow>
      registerFileUploadEndpoint_handler (fst (initClients openai_NewClient minio_New g')) input w =
        (Inr \<lparr>Success = False, Message = ''MinIO client not configured''\<rparr>, w))"
proof (intro conjI impI)
  assume none: "minioClient g = None"
  show "registerFileUploadEndpoint_handler g input w =
        (Inr \<lparr>Success = False, Message = ''MinIO client not configured''\<rparr>, w)"
    by (rule upload_no_client [OF none])
  show "http_status (fst (registerFileUploadEndpoint_handler g input w)) = 200"
    by (rule upload_status_200)
  show "calls (snd (registerFileUploadEndpoint_handler g input w)) = calls w"
    by (simp add: upload_no_client [OF none])
next
  assume "minioClient g' = None \<and> (MinIOKey (config g') = '''' \<or> MinIOSecret (config g') = '''')"
  then have "minioClient (fst (initClients openai_NewClient minio_New g')) = None"
    by (simp add: initClients_without_credentials)
  then show "registerFileUploadEndpoint_handler
               (fst (initClients openai_NewClient minio_New g')) input w =
             (Inr \<lparr>Success = False, Message = ''MinIO client not configured''\<rparr>, w)"
    by (rule upload_no_client)
qed

theorem upload_without_client_witness:
  "minioClient (no_clients :: unit globals) = None
   \<and> MinIOSecret (config (no_clients :: unit globals)) = ''''
   \<and> registerFileUploadEndpoint_handler (no_clients :: unit globals) test_upload (quiet ()) =
       (Inr \<lparr>Success = False, Message = ''MinIO client not configured''\<rparr>, quiet ())
   \<and> registerFileUploadEndpoint_handler (started no_config) test_upload (quiet ()) =
       (Inr \<lparr>Success = False, Message = ''MinIO client not configured''\<rparr>, quiet ())"
  using upload_without_client
    [where g = "no_clients :: unit globals" and g' = "no_clients :: unit globals"
       and input = test_upload and w = "quiet ()"
       and openai_NewClient = "\<lambda>key. scripted_openai (Inr \<lparr>Choices = []\<rparr>)"
       and minio_New = "\<lambda>url opts. Inr (scripted_minio (Inr True) None None)"]
  by (simp add: no_clients_def no_config_def started_def)

text \<open>
  The message is not the text \<open>storage client not configured\<close>: after a start with empty
  storage credentials, the reply to the request of \<open>TestFileUploadEndpointWithoutClient\<close>
  differs from the body with that message.
\<close>

theorem upload_unconfigured_message_counterexample:
  "MinIOKey no_config = '''' \<and> MinIOSecret no_config = ''''
   \<and> fst (registerFileUploadEndpoint_handler (started no_config) test_upload (quiet ())) \<noteq>
       Inr \<lparr>Success = False, Message = ''storage client not configured''\<rparr>"
  by (simp add: registerFileUploadEndpoint_handler_def started_def initClients_def
      no_config_def)

section \<open>Upload with a storage client: the three steps\<close>

text \<open>
  \<^bold>\<open>C3\<close> (as amended). With a storage client configured, for every request and every
  behaviour of the provider, the upload handler answers with HTTP 200; the calls it makes
  are the existence check, then the creation only when the bucket is absent, then the
  write, in this order and stopping at the first failure; and a failing step gives
  \<open>success: false\<close> with the message \<open>Failed to check bucket existence: <err>\<close>,
  \<open>Failed to create bucket: <err>\<close> or \<open>Failed to upload file: <err>\<close>, where \<open><err>\<close> is
  the provider's error text. The three implications cover every outcome of the provider:
  the check fails; the check answers that the bucket is absent and the creation fails;
  or the write is reached, in the state \<open>s2\<close> after the check (bucket present) or after
  the creation (bucket absent), and then, whether the write fails or succeeds, the calls
  made are exactly the check, the creation when the bucket was absent, and the write, and
  the remote state is the one the write leaves.
\<close>

theorem upload_steps_in_order_in_band:
  assumes client: "minioClient g = Some c"
  shows "http_status (fst (registerFileUploadEndpoint_handler g input w)) = 200
   \<and> calls (snd (registerFileUploadEndpoint_handler g input w)) \<in>
       {calls w @ [CallBucketExists (BucketName input)],
        calls w @ [CallBucketExists (BucketName input), CallMakeBucket (BucketName input)],
        calls w @ [CallBucketExists (BucketName input), put_call input],
        calls w @ [CallBucketExists (BucketName input), CallMakeBucket (BucketName input),
                   put_call input]}
   \<and> (BucketExists c (BucketName input) (remote w) = (Inl e1, t1) \<longrightarrow>
        registerFileUploadEndpoint_handler g input w =
          (Inr \<lparr>Success = False, Message = ''Failed to check bucket existence: '' @ e1\<rparr>,
           \<lparr>remote = t1, calls = calls w @ [CallBucketExists (BucketName input)]\<rparr>))
   \<and> (BucketExists c (BucketName input) (remote w) = (Inr False, u1)
        \<and> MakeBucket c (BucketName input) u1 = (Some e2, u2) \<longrightarrow>
        registerFileUploadEndpoint_handler g input w =
          (Inr \<lparr>Success = False, Message = ''Failed to create bucket: '' @ e2\<rparr>,
           \<lparr>remote = u2,
            calls = calls w @ [CallBucketExists (BucketName input),
                               CallMakeBucket (BucketName input)]\<rparr>))
   \<and> (BucketExists c (BucketName input) (remote w) = (Inr ex, s1)
        \<and> (if ex then s2 = s1 else MakeBucket c (BucketName input) s1 = (None, s2))
        \<and> PutObject c (BucketName input) (FileName input) (FileUploadRequest.Content input)
             (int (length (FileUploadRequest.Content input))) ''text/plain'' s2 = (r, s3) \<longrightarrow>
        registerFileUploadEndpoint_handler g input w =
          (Inr (case r of
                  Some e3 \<Rightarrow> \<lparr>Success = False, Message = ''Failed to upload file: '' @ e3\<rparr>
                | None \<Rightarrow> \<lparr>Success = True,
                            Message = ''File '' @ FileName input
                              @ '' uploaded successfully to bucket '' @ BucketName input\<rparr>),
           \<lparr>remote = s3,
            calls = calls w @ [CallBucketExists (BucketName input)]
                      @ (if ex then [] else [CallMakeBucket (BucketName input)])
                      @ [put_call input]\<rparr>))"
proof (intro conjI impI)
  show "http_status (fst (registerFileUploadEndpoint_handler g input w)) = 200"
    by (rule upload_status_200)
  show "calls (snd (registerFileUploadEndpoint_handler g input w)) \<in>
       {calls w @ [CallBucketExists (BucketName input)],
        calls w @ [CallBucketExists (BucketName input), CallMakeBucket (BucketName input)],
        calls w @ [CallBucketExists (BucketName input), put_call input],
        calls w @ [CallBucketExists (BucketName input), CallMakeBucket (BucketName input),
                   put_call input]}"
    by (rule upload_call_shapes [OF client])
next
  assume "BucketExists c (BucketName input) (remote w) = (Inl e1, t1)"
  then show "registerFileUploadEndpoint_handler g input w =
          (Inr \<lparr>Success = False, Message = ''Failed to check bucket existence: '' @ e1\<rparr>,
           \<lparr>remote = t1, calls = calls w @ [CallBucketExists (BucketName input)]\<rparr>)"
    by (rule upload_check_fails [OF client])
next
  assume "BucketExists c (BucketName input) (remote w) = (Inr False, u1)
        \<and> MakeBucket c (BucketName input) u1 = (Some e2, u2)"
  then show "registerFileUploadEndpoint_handler g input w =
          (Inr \<lparr>Success = False, Message = ''Failed to create bucket: '' @ e2\<rparr>,
           \<lparr>remote = u2,
            calls = calls w @ [CallBucketExists (BucketName input),
                               CallMakeBucket (BucketName input)]\<rparr>)"
    using upload_create_fails [OF client] by blast
next
  assume "BucketExists c (BucketName input) (remote w) = (Inr ex, s1)
        \<and> (if ex then s2 = s1 else MakeBucket c (BucketName input) s1 = (None, s2))
        \<and> PutObject c (BucketName input) (FileName input) (FileUploadRequest.Content input)
             (int (length (FileUploadRequest.Content input))) ''text/plain'' s2 = (r, s3)"
  then have check: "BucketExists c (BucketName input) (remote w) = (Inr ex, s1)"
    and step: "if ex then s2 = s1 else MakeBucket c (BucketName input) s1 = (None, s2)"
    and put: "PutObject c (BucketName input) (FileName input) (FileUploadRequest.Content input)
             (int (length (FileUploadRequest.Content input))) ''text/plain'' s2 = (r, s3)"
    by simp_all
  show "registerFileUploadEndpoint_handler g input w =
          (Inr (case r of
                  Some e3 \<Rightarrow> \<lparr>Success = False, Message = ''Failed to upload file: '' @ e3\<rparr>
                | None \<Rightarrow> \<lparr>Success = True,
                            Message = ''File '' @ FileName input
                              @ '' uploaded successfully to bucket '' @ BucketName input\<rparr>),
           \<lparr>remote = s3,
            calls = calls w @ [CallBucketExists (BucketName input)]
                      @ (if ex then [] else [CallMakeBucket (BucketName input)])
                      @ [put_call input]\<rparr>)"
    by (rule upload_write [OF client check step put])
qed

theorem upload_steps_in_order_in_band_witness:
  "fst (registerFileUploadEndpoint_handler
          (with_minio (scripted_minio (Inl ''connection refused'') None None))
          hello_upload (quiet ())) =
     Inr \<lparr>Success = False,
          Message = ''Failed to check bucket existence: connection refused''\<rparr>
   \<and> fst (registerFileUploadEndpoint_handler
          (with_minio (scripted_minio (Inr False) (Some ''access denied'') None))
          hello_upload (quiet ())) =
     Inr \<lparr>Success = False, Message = ''Failed to create bucket: access denied''\<rparr>
   \<and> fst (registerFileUploadEndpoint_handler
          (with_minio (scripted_minio (Inr True) None (Some ''disk full'')))
          hello_upload (quiet ())) =
     Inr \<lparr>Success = False, Message = ''Failed to upload file: disk full''\<rparr>
   \<and> calls (snd (registerFileUploadEndpoint_handler
          (with_minio (scripted_minio (Inr False) None (Some ''disk full'')))
          hello_upload (quiet ()))) =
     [CallBucketExists ''test'', CallMakeBucket ''test'',
      CallPutObject ''test'' ''hello.txt'' ''Hello World!'' 12 ''text/plain'']
   \<and> registerFileUploadEndpoint_handler
         (with_minio (scripted_minio (Inr False) None None)) hello_upload (quiet ()) =
     (Inr \<lparr>Success = True,
           Message = ''File hello.txt uploaded successfully to bucket test''\<rparr>,
      \<lparr>remote = (),
       calls = [CallBucketExists ''test'', CallMakeBucket ''test'',
                CallPutObject ''test'' ''hello.txt'' ''Hello World!'' 12 ''text/plain'']\<rparr>)"
proof (intro conjI)
  let ?down = "scripted_minio (Inl ''connection refused'') None None"
  have "BucketExists ?down (BucketName hello_upload) (remote (quiet ())) =
          (Inl ''connection refused'', ())"
    by (simp add: scripted_minio_def)
  with upload_steps_in_order_in_band
         [where g = "with_minio ?down" and c = ?down and input = hello_upload
            and w = "quiet ()" and ?e1.0 = "''connection refused''" and ?t1.0 = "()"]
  show "fst (registerFileUploadEndpoint_handler (with_minio ?down) hello_upload (quiet ())) =
     Inr \<lparr>Success = False,
          Message = ''Failed to check bucket existence: connection refused''\<rparr>"
    by (simp add: with_minio_def)
next
  let ?denied = "scripted_minio (Inr False) (Some ''access denied'') None"
  have "BucketExists ?denied (BucketName hello_upload) (remote (quiet ())) = (Inr False, ())
        \<and> MakeBucket ?denied (BucketName hello_upload) () = (Some ''access denied'', ())"
    by (simp add: scripted_minio_def)
  with upload_steps_in_order_in_band
         [where g = "with_minio ?denied" and c = ?denied and input = hello_upload
            and w = "quiet ()" and ?e2.0 = "''access denied''" and ?u1.0 = "()"
            and ?u2.0 = "()"]
  show "fst (registerFileUploadEndpoint_handler (with_minio ?denied) hello_upload (quiet ())) =
     Inr \<lparr>Success = False, Message = ''Failed to create bucket: access denied''\<rparr>"
    by (simp add: with_minio_def)
next
  let ?full = "scripted_minio (Inr True) None (Some ''disk full'')"
  have "BucketExists ?full (BucketName hello_upload) (remote (quiet ())) = (Inr True, ())
        \<and> (if True then () = () else MakeBucket ?full (BucketName hello_upload) () = (None, ()))
        \<and> PutObject ?full (BucketName hello_upload) (FileName hello_upload)
             (FileUploadRequest.Content hello_upload)
             (int (length (FileUploadRequest.Content hello_upload))) ''text/plain'' () =
            (Some ''disk full'', ())"
    by (simp add: scripted_minio_def)
  with upload_steps_in_order_in_band
         [where g = "with_minio ?full" and c = ?full and input = hello_upload
            and w = "quiet ()" and r = "Some ''disk full''" and ex = True and ?s1.0 = "()"
            and ?s2.0 = "()" and ?s3.0 = "()"]
  show "fst (registerFileUploadEndpoint_handler (with_minio ?full) hello_upload (quiet ())) =
     Inr \<lparr>Success = False, Message = ''Failed to upload file: disk full''\<rparr>"
    by (simp add: with_minio_def)
next
  let ?late = "scripted_minio (Inr False) None (Some ''disk full'')"
  have "BucketExists ?late (BucketName hello_upload) (remote (quiet ())) = (Inr False, ())
        \<and> (if False then () = () else MakeBucket ?late (BucketName hello_upload) () = (None, ()))
        \<and> PutObject ?late (BucketName hello_upload) (FileName hello_upload)
             (FileUploadRequest.Content hello_upload)
             (int (length (FileUploadRequest.Content hello_upload))) ''text/plain'' () =
            (Some ''disk full'', ())"
    by (simp add: scripted_minio_def)
  with upload_steps_in_order_in_band
         [where g = "with_minio ?late" and c = ?late and input = hello_upload
            and w = "quiet ()" and r = "Some ''disk full''" and ex = False and ?s1.0 = "()"
            and ?s2.0 = "()" and ?s3.0 = "()"]
  show "calls (snd (registerFileUploadEndpoint_handler (with_minio ?late) hello_upload
          (quiet ()))) =
     [CallBucketExists ''test'', CallMakeBucket ''test'',
      CallPutObject ''test'' ''hello.txt'' ''Hello World!'' 12 ''text/plain'']"
    by (simp add: with_minio_def hello_upload_def quiet_def)
next
  let ?up = "scripted_minio (Inr False) None None"
  have "BucketExists ?up (BucketName hello_upload) (remote (quiet ())) = (Inr False, ())
        \<and> (if False then () = () else MakeBucket ?up (BucketName hello_upload) () = (None, ()))
        \<and> PutObject ?up (BucketName hello_upload) (FileName hello_upload)
             (FileUploadRequest.Content hello_upload)
             (int (length (FileUploadRequest.Content hello_upload))) ''text/plain'' () =
            (None, ())"
    by (simp add: scripted_minio_def)
  with upload_steps_in_order_in_band
         [where g = "with_minio ?up" and c = ?up and input = hello_upload
            and w = "quiet ()" and r = None and ex = False and ?s1.0 = "()"
            and ?s2.0 = "()" and ?s3.0 = "()"]
  show "registerFileUploadEndpoint_handler (with_minio ?up) hello_upload (quiet ()) =
     (Inr \<lparr>Success = True,
           Message = ''File hello.txt uploaded successfully to bucket test''\<rparr>,
      \<lparr>remote = (),
       calls = [CallBucketExists ''test'', CallMakeBucket ''test'',
                CallPutObject ''test'' ''hello.txt'' ''Hello World!'' 12 ''text/plain'']\<rparr>)"
    by (simp add: with_minio_def hello_upload_def quiet_def)
qed

text \<open>
  The three messages do not start with a lower-case letter: for a provider whose check
  fails, one whose creation fails and one whose write fails, the reply differs from the
  body with the message \<open>failed to ...\<close>.
\<close>

theorem upload_failure_messages_counterexample:
  "fst (registerFileUploadEndpoint_handler
          (with_minio (scripted_minio (Inl ''connection refused'') None None))
          hello_upload (quiet ())) \<noteq>
     Inr \<lparr>Success = False,
          Message = ''failed to check bucket existence: connection refused''\<rparr>
   \<and> fst (registerFileUploadEndpoint_handler
          (with_minio (scripted_minio (Inr False) (Some ''access denied'') None))
          hello_upload (quiet ())) \<noteq>
     Inr \<lparr>Success = False, Message = ''failed to create bucket: access denied''\<rparr>
   \<and> fst (registerFileUploadEndpoint_handler
          (with_minio (scripted_minio (Inr True) None (Some ''disk full'')))
          hello_upload (quiet ())) \<noteq>
     Inr \<lparr>Success = False, Message = ''failed to upload file: disk full''\<rparr>"
  by (simp add: registerFileUploadEndpoint_handler_def with_minio_def scripted_minio_def
      call_BucketExists_def call_MakeBucket_def call_PutObject_def quiet_def)

section \<open>Upload: full success\<close>

text \<open>
  \<^bold>\<open>C7.\<close> For every upload request on which all steps of the storage provider succeed
  (the existence check, the creation when the bucket is absent, the write), the handler
  answers with HTTP 200, \<open>success: true\<close> and the message
  \<open>File <file_name> uploaded successfully to bucket <bucket_name>\<close> with the request's
  file name and bucket name. Here \<open>s1\<close> is the remote state after the check,
  \<open>s2\<close> the state in which the write starts and \<open>s3\<close> the state after it.
\<close>

theorem upload_all_steps_succeed:
  assumes "minioClient g = Some c"
    and "BucketExists c (BucketName input) (remote w) = (Inr ex, s1)"
    and "if ex then s2 = s1 else MakeBucket c (BucketName input) s1 = (None, s2)"
    and "PutObject c (BucketName input) (FileName input) (FileUploadRequest.Content input)
           (int (length (FileUploadRequest.Content input))) ''text/plain'' s2 = (None, s3)"
  shows "fst (registerFileUploadEndpoint_handler g input w) =
           Inr \<lparr>Success = True,
                Message = ''File '' @ FileName input @ '' uploaded successfully to bucket ''
                            @ BucketName input\<rparr>
         \<and> http_status (fst (registerFileUploadEndpoint_handler g input w)) = 200"
proof (intro conjI)
  show "fst (registerFileUploadEndpoint_handler g input w) =
           Inr \<lparr>Success = True,
                Message = ''File '' @ FileName input @ '' uploaded successfully to bucket ''
                            @ BucketName input\<rparr>"
    by (simp add: upload_write [OF assms])
  show "http_status (fst (registerFileUploadEndpoint_handler g input w)) = 200"
    by (rule upload_status_200)
qed

theorem upload_all_steps_succeed_witness:
  "BucketExists store_minio (BucketName hello_upload) [] = (Inr False, [])
   \<and> MakeBucket store_minio (BucketName hello_upload) [] = (None, [(''test'', [])])
   \<and> fst (registerFileUploadEndpoint_handler (no_clients\<lparr>minioClient := Some store_minio\<rparr>)
         hello_upload (quiet [])) =
       Inr \<lparr>Success = True,
            Message = ''File hello.txt uploaded successfully to bucket test''\<rparr>
   \<and> http_status (fst (registerFileUploadEndpoint_handler
         (no_clients\<lparr>minioClient := Some store_minio\<rparr>) hello_upload (quiet []))) = 200"
proof -
  let ?g = "no_clients\<lparr>minioClient := Some store_minio\<rparr> :: store globals"
  have client: "minioClient ?g = Some store_minio"
    by (simp add: no_clients_def)
  have check0: "BucketExists store_minio (BucketName hello_upload) [] = (Inr False, [])"
    by (simp add: store_minio_def hello_upload_def)
  have make0: "MakeBucket store_minio (BucketName hello_upload) [] = (None, [(''test'', [])])"
    by (simp add: store_minio_def hello_upload_def)
  have check: "BucketExists store_minio (BucketName hello_upload) (remote (quiet [])) =
                 (Inr False, [])"
    using check0 by (simp add: quiet_def)
  have make: "if False then [(''test'', [])] = []
              else MakeBucket store_minio (BucketName hello_upload) [] = (None, [(''test'', [])])"
    using make0 by simp
  have put: "PutObject store_minio (BucketName hello_upload) (FileName hello_upload)
               (FileUploadRequest.Content hello_upload)
               (int (length (FileUploadRequest.Content hello_upload))) ''text/plain''
               [(''test'', [])] =
             (None, [(''test'', [(''hello.txt'', ''Hello World!'')]), (''test'', [])])"
    by (simp add: store_minio_def hello_upload_def)
  note result = upload_all_steps_succeed [OF client check make put]
  have message: "''File '' @ FileName hello_upload @ '' uploaded successfully to bucket ''
                   @ BucketName hello_upload =
                 ''File hello.txt uploaded successfully to bucket test''"
    by (simp add: hello_upload_def)
  from result check0 make0 show ?thesis
    unfolding message by blast
qed

section \<open>Upload into an existing bucket\<close>

text \<open>
  \<^bold>\<open>C8.\<close> For every upload request whose existence check answers that the bucket
  exists, the handler makes exactly two calls, the check and the write: it never calls
  \<open>MakeBucket\<close>. When the write succeeds the upload succeeds. So a repeated identical
  upload, which finds the bucket of the first one, skips the creation and still succeeds.
\<close>

theorem upload_existing_bucket_skips_creation:
  assumes client: "minioClient g = Some c"
    and check: "BucketExists c (BucketName input) (remote w) = (Inr True, s1)"
  shows "calls (snd (registerFileUploadEndpoint_handler g input w)) =
           calls w @ [CallBucketExists (BucketName input), put_call input]
   \<and> CallMakeBucket b \<notin>
       set (drop (length (calls w)) (calls (snd (registerFileUploadEndpoint_handler g input w))))
   \<and> (PutObject c (BucketName input) (FileName input) (FileUploadRequest.Content input)
         (int (length (FileUploadRequest.Content input))) ''text/plain'' s1 = (None, s3) \<longrightarrow>
       fst (registerFileUploadEndpoint_handler g input w) =
         Inr \<lparr>Success = True,
              Message = ''File '' @ FileName input @ '' uploaded successfully to bucket ''
                          @ BucketName input\<rparr>)"
proof -
  obtain r t where put:
    "PutObject c (BucketName input) (FileName input) (FileUploadRequest.Content input)
       (int (length (FileUploadRequest.Content input))) ''text/plain'' s1 = (r, t)"
    by (cases "PutObject c (BucketName input) (FileName input)
                 (FileUploadRequest.Content input)
                 (int (length (FileUploadRequest.Content input))) ''text/plain'' s1")
  have step: "if True then s1 = s1 else MakeBucket c (BucketName input) s1 = (None, s1)"
    by simp
  note run = upload_write [OF client check step put]
  have made: "calls (snd (registerFileUploadEndpoint_handler g input w)) =
           calls w @ [CallBucketExists (BucketName input), put_call input]"
    by (simp add: run)
  have "CallMakeBucket b \<notin>
       set (drop (length (calls w)) (calls (snd (registerFileUploadEndpoint_handler g input w))))"
    by (simp add: made)
  moreover have "PutObject c (BucketName input) (FileName input)
         (FileUploadRequest.Content input)
         (int (length (FileUploadRequest.Content input))) ''text/plain'' s1 = (None, s3) \<longrightarrow>
       fst (registerFileUploadEndpoint_handler g input w) =
         Inr \<lparr>Success = True,
              Message = ''File '' @ FileName input @ '' uploaded successfully to bucket ''
                          @ BucketName input\<rparr>"
    using put by (auto simp: run)
  ultimately show ?thesis using made by blast
qed

text \<open>
  The repeated upload on the in-memory store: the first run creates the bucket, the second
  run starts in the world the first one left.
\<close>

lemma first_upload_into_empty_store:
  "registerFileUploadEndpoint_handler with_store hello_upload (quiet []) =
     (Inr \<lparr>Success = True,
           Message = ''File hello.txt uploaded successfully to bucket test''\<rparr>,
      \<lparr>remote = [(''test'', [(''hello.txt'', ''Hello World!'')]), (''test'', [])],
       calls = [CallBucketExists ''test'', CallMakeBucket ''test'',
                CallPutObject ''test'' ''hello.txt'' ''Hello World!'' 12 ''text/plain'']\<rparr>)"
  by (simp add: registerFileUploadEndpoint_handler_def with_store_def with_minio_def
      store_minio_def hello_upload_def quiet_def call_BucketExists_def call_MakeBucket_def
      call_PutObject_def)

theorem upload_existing_bucket_skips_creation_witness:
  "calls (snd (registerFileUploadEndpoint_handler with_store hello_upload
          (snd (registerFileUploadEndpoint_handler with_store hello_upload (quiet []))))) =
     [CallBucketExists ''test'', CallMakeBucket ''test'',
      CallPutObject ''test'' ''hello.txt'' ''Hello World!'' 12 ''text/plain'',
      CallBucketExists ''test'',
      CallPutObject ''test'' ''hello.txt'' ''Hello World!'' 12 ''text/plain'']
   \<and> fst (registerFileUploadEndpoint_handler with_store hello_upload
          (snd (registerFileUploadEndpoint_handler with_store hello_upload (quiet [])))) =
     Inr \<lparr>Success = True,
          Message = ''File hello.txt uploaded successfully to bucket test''\<rparr>"
proof -
  let ?s1 = "[(''test'', [(''hello.txt'', ''Hello World!'')]), (''test'', [])] :: store"
  let ?w1 = "\<lparr>remote = ?s1,
              calls = [CallBucketExists ''test'', CallMakeBucket ''test'',
                CallPutObject ''test'' ''hello.txt'' ''Hello World!'' 12 ''text/plain'']\<rparr>"
  have first: "snd (registerFileUploadEndpoint_handler with_store hello_upload (quiet [])) = ?w1"
    by (simp add: first_upload_into_empty_store)
  have client: "minioClient with_store = Some store_minio"
    by (simp add: with_store_def with_minio_def)
  have check: "BucketExists store_minio (BucketName hello_upload) (remote ?w1) = (Inr True, ?s1)"
    by (simp add: store_minio_def hello_upload_def)
  have put: "PutObject store_minio (BucketName hello_upload) (FileName hello_upload)
         (FileUploadRequest.Content hello_upload)
         (int (length (FileUploadRequest.Content hello_upload))) ''text/plain'' ?s1 =
       (None, (''test'', [(''hello.txt'', ''Hello World!''), (''hello.txt'', ''Hello World!'')])
                # ?s1)"
    by (simp add: store_minio_def hello_upload_def)
  from upload_existing_bucket_skips_creation [OF client check, where b = "''test''"
         and ?s3.0 = "(''test'', [(''hello.txt'', ''Hello World!''),
                                  (''hello.txt'', ''Hello World!'')]) # ?s1"] put
  show ?thesis
    unfolding first by (simp add: hello_upload_def)
qed

section \<open>The chat handler, branch by branch\<close>

lemma chat_no_client:
  "openaiClient g = None \<Longrightarrow>
   registerChatEndpoint_handler g input w =
     (Inl \<lparr>Status = 400, Detail = ''OpenAI client not configured'', Errors = []\<rparr>, w)"
  by (simp add: registerChatEndpoint_handler_def Error400BadRequest_def)

lemma chat_provider_fails:
  assumes "openaiClient g = Some c"
    and "CreateChatCompletion c (chat_request input) (remote w) = (Inl err, s')"
  shows "registerChatEndpoint_handler g input w =
     (Inl \<lparr>Status = 500, Detail = ''Failed to get OpenAI response'', Errors = [err]\<rparr>,
      \<lparr>remote = s', calls = calls w @ [CallCreateChatCompletion (chat_request input)]\<rparr>)"
  using assms
  by (simp add: registerChatEndpoint_handler_def call_CreateChatCompletion_def
      Error500InternalServerError_def)

lemma chat_provider_answers:
  assumes "openaiClient g = Some c"
    and "CreateChatCompletion c (chat_request input) (remote w) = (Inr resp, s')"
  shows "registerChatEndpoint_handler g input w =
     (Inr \<lparr>Reply = (case Choices resp of
                       [] \<Rightarrow> ''No response''
                     | ch # rest \<Rightarrow>
                         ChatCompletionMessage.Content (ChatCompletionChoice.Message ch))\<rparr>,
      \<lparr>remote = s', calls = calls w @ [CallCreateChatCompletion (chat_request input)]\<rparr>)"
  using assms
  by (simp add: registerChatEndpoint_handler_def call_CreateChatCompletion_def
      split: list.split)

lemma initClients_without_key:
  assumes "openaiClient g = None" and "OpenAIKey (config g) = ''''"
  shows "openaiClient (fst (initClients openai_NewClient minio_New g)) = None"
  using assms by (simp add: initClients_def Let_def split: sum.split)

section \<open>Chat without a completion client\<close>

text \<open>
  \<^bold>\<open>C2\<close> (as amended). When no completion client is configured, the chat handler fails
  every request with HTTP 400 and the message \<open>OpenAI client not configured\<close>, and leaves
  the world as it was: it makes no call to the completion provider. This holds whenever
  the variable \<open>openaiClient\<close> is nil, and in particular after \<open>initClients\<close> has run on a
  nil client with an empty API key.
\<close>

theorem chat_without_client:
  "(openaiClient g = None \<longrightarrow>
      registerChatEndpoint_handler g input w =
        (Inl \<lparr>Status = 400, Detail = ''OpenAI client not configured'', Errors = []\<rparr>, w)
      \<and> http_status (fst (registerChatEndpoint_handler g input w)) = 400
      \<and> calls (snd (registerChatEndpoint_handler g input w)) = calls w)
   \<and> (openaiClient g' = None \<and> OpenAIKey (config g') = '''' \<longrightarrow>
      registerChatEndpoint_handler (fst (initClients openai_NewClient minio_New g')) input w =
        (Inl \<lparr>Status = 400, Detail = ''OpenAI client not configured'', Errors = []\<rparr>, w))"
proof (intro conjI impI)
  assume none: "openaiClient g = None"
  show "registerChatEndpoint_handler g input w =
        (Inl \<lparr>Status = 400, Detail = ''OpenAI client not configured'', Errors = []\<rparr>, w)"
    by (rule chat_no_client [OF none])
  show "http_status (fst (registerChatEndpoint_handler g input w)) = 400"
    by (simp add: chat_no_client [OF none] http_status_def)
  show "calls (snd (registerChatEndpoint_handler g input w)) = calls w"
    by (simp add: chat_no_client [OF none])
next
  assume "openaiClient g' = None \<and> OpenAIKey (config g') = ''''"
  then have "openaiClient (fst (initClients openai_NewClient minio_New g')) = None"
    by (simp add: initClients_without_key)
  then show "registerChatEndpoint_handler
               (fst (initClients openai_NewClient minio_New g')) input w =
        (Inl \<lparr>Status = 400, Detail = ''OpenAI client not configured'', Errors = []\<rparr>, w)"
    by (rule chat_no_client)
qed

theorem chat_without_client_witness:
  "openaiClient (no_clients :: unit globals) = None
   \<and> OpenAIKey (config (no_clients :: unit globals)) = ''''
   \<and> registerChatEndpoint_handler (no_clients :: unit globals) hello_chat (quiet ()) =
       (Inl \<lparr>Status = 400, Detail = ''OpenAI client not configured'', Errors = []\<rparr>, quiet ())
   \<and> http_status (fst (registerChatEndpoint_handler (no_clients :: unit globals) hello_chat
        (quiet ()))) = 400
   \<and> registerChatEndpoint_handler (started no_config) hello_chat (quiet ()) =
       (Inl \<lparr>Status = 400, Detail = ''OpenAI client not configured'', Errors = []\<rparr>, quiet ())"
  using chat_without_client
    [where g = "no_clients :: unit globals" and g' = "no_clients :: unit globals"
       and input = hello_chat and w = "quiet ()"
       and openai_NewClient = "\<lambda>key. scripted_openai (Inr \<lparr>Choices = []\<rparr>)"
       and minio_New = "\<lambda>url opts. Inr (scripted_minio (Inr True) None None)"]
  by (simp add: no_clients_def no_config_def started_def http_status_def)

text \<open>
  The message is not the text \<open>completion client not configured\<close>: after a start with an
  empty API key the reply is an error whose detail differs from it.
\<close>

theorem chat_unconfigured_message_counterexample:
  "OpenAIKey no_config = ''''
   \<and> isl (fst (registerChatEndpoint_handler (started no_config) hello_chat (quiet ())))
   \<and> Detail (projl (fst (registerChatEndpoint_handler (started no_config) hello_chat
        (quiet ())))) \<noteq> ''completion client not configured''"
  by (simp add: registerChatEndpoint_handler_def started_def initClients_def no_config_def
      Error400BadRequest_def)

section \<open>Chat: the reply\<close>

text \<open>
  \<^bold>\<open>C5.\<close> For every chat request handled with a configured completion client whose
  call succeeds, the handler answers with HTTP 200; the reply is the literal
  \<open>No response\<close> when the provider returns no choice, and the content of the first choice
  otherwise.
\<close>

theorem chat_reply_first_choice_or_default:
  assumes client: "openaiClient g = Some c"
    and answer: "CreateChatCompletion c (chat_request input) (remote w) = (Inr resp, s')"
  shows "http_status (fst (registerChatEndpoint_handler g input w)) = 200
   \<and> (Choices resp = [] \<longrightarrow>
        fst (registerChatEndpoint_handler g input w) = Inr \<lparr>Reply = ''No response''\<rparr>)
   \<and> (Choices resp = ch # rest \<longrightarrow>
        fst (registerChatEndpoint_handler g input w) =
          Inr \<lparr>Reply = ChatCompletionMessage.Content (ChatCompletionChoice.Message ch)\<rparr>)"
  by (simp add: chat_provider_answers [OF client answer] http_status_def)

theorem chat_reply_first_choice_or_default_witness:
  "fst (registerChatEndpoint_handler (with_openai (scripted_openai (Inr \<lparr>Choices = []\<rparr>)))
          hello_chat (quiet ())) = Inr \<lparr>Reply = ''No response''\<rparr>
   \<and> fst (registerChatEndpoint_handler (with_openai (scripted_openai (Inr two_choices)))
          hello_chat (quiet ())) = Inr \<lparr>Reply = ''Hi there''\<rparr>
   \<and> http_status (fst (registerChatEndpoint_handler
          (with_openai (scripted_openai (Inr two_choices))) hello_chat (quiet ()))) = 200"
proof -
  let ?silent = "scripted_openai (Inr \<lparr>Choices = []\<rparr>)"
  let ?chatty = "scripted_openai (Inr two_choices)"
  have silent: "CreateChatCompletion ?silent (chat_request hello_chat) (remote (quiet ())) =
                  (Inr \<lparr>Choices = []\<rparr>, ())"
    by (simp add: scripted_openai_def)
  have chatty: "CreateChatCompletion ?chatty (chat_request hello_chat) (remote (quiet ())) =
                  (Inr two_choices, ())"
    by (simp add: scripted_openai_def)
  have client: "openaiClient (with_openai c) = Some c" for c :: "unit openai_Client"
    by (simp add: with_openai_def)
  from chat_reply_first_choice_or_default [OF client silent]
       chat_reply_first_choice_or_default [OF client chatty,
         where ch = "\<lparr>ChatCompletionChoice.Message =
                         \<lparr>Role = ''assistant'', Content = ''Hi there''\<rparr>\<rparr>"
           and rest = "[\<lparr>ChatCompletionChoice.Message =
                           \<lparr>Role = ''assistant'', Content = ''Good day''\<rparr>\<rparr>]"]
  show ?thesis
    by (simp add: two_choices_def http_status_def)
qed

section \<open>Chat: a failing provider\<close>

text \<open>
  \<^bold>\<open>C6.\<close> For every chat request handled with a configured completion client whose
  call fails, the handler fails with HTTP 500, and the error it returns carries the text
  of the provider's error. The provider has been called exactly once: the call is not
  retried, and its error is not dropped.
\<close>

theorem chat_provider_error_is_500:
  assumes client: "openaiClient g = Some c"
    and failure: "CreateChatCompletion c (chat_request input) (remote w) = (Inl err, s')"
  shows "http_status (fst (registerChatEndpoint_handler g input w)) = 500
   \<and> fst (registerChatEndpoint_handler g input w) =
       Inl \<lparr>Status = 500, Detail = ''Failed to get OpenAI response'', Errors = [err]\<rparr>
   \<and> calls (snd (registerChatEndpoint_handler g input w)) =
       calls w @ [CallCreateChatCompletion (chat_request input)]"
  by (simp add: chat_provider_fails [OF client failure] http_status_def)

theorem chat_provider_error_is_500_witness:
  "http_status (fst (registerChatEndpoint_handler
      (with_openai (scripted_openai (Inl ''status code: 401''))) hello_chat (quiet ()))) = 500
   \<and> Errors (projl (fst (registerChatEndpoint_handler
      (with_openai (scripted_openai (Inl ''status code: 401''))) hello_chat (quiet ())))) =
       [''status code: 401'']
   \<and> length (calls (snd (registerChatEndpoint_handler
      (with_openai (scripted_openai (Inl ''status code: 401''))) hello_chat (quiet ())))) = 1"
proof -
  let ?c = "scripted_openai (Inl ''status code: 401'')"
  have client: "openaiClient (with_openai ?c) = Some ?c"
    by (simp add: with_openai_def)
  have failure: "CreateChatCompletion ?c (chat_request hello_chat) (remote (quiet ())) =
                   (Inl ''status code: 401'', ())"
    by (simp add: scripted_openai_def)
  from chat_provider_error_is_500 [OF client failure] show ?thesis
    by (simp add: quiet_def http_status_def)
qed

section \<open>The health handler\<close>

lemma health_result:
  "registerHealthEndpoint_handler g w =
     (Inr [''status'' \<mapsto> AnyString ''healthy'',
           ''services'' \<mapsto> AnyBoolMap [''openai'' \<mapsto> openaiClient g \<noteq> None,
                                       ''minio'' \<mapsto> minioClient g \<noteq> None],
           ''config'' \<mapsto> AnyStringMap [''port'' \<mapsto> Port (config g),
                                       ''minio_url'' \<mapsto> MinIOURL (config g)]], w)"
  by (simp add: registerHealthEndpoint_handler_def)

lemma health_services:
  "services_of (projr (fst (registerHealthEndpoint_handler g w))) =
     [''openai'' \<mapsto> openaiClient g \<noteq> None, ''minio'' \<mapsto> minioClient g \<noteq> None]"
  by (simp add: health_result services_of_def)

lemma health_config:
  "config_of (projr (fst (registerHealthEndpoint_handler g w))) =
     [''port'' \<mapsto> Port (config g), ''minio_url'' \<mapsto> MinIOURL (config g)]"
  by (simp add: health_result config_of_def)

lemma health_status:
  "status_of (projr (fst (registerHealthEndpoint_handler g w))) = Some ''healthy''"
  by (simp add: health_result status_of_def)

lemma health_keys:
  "dom (projr (fst (registerHealthEndpoint_handler g w))) = {''status'', ''services'', ''config''}"
  by (auto simp: health_result)

text \<open>
  \<^bold>\<open>C4\<close> (as amended). The health handler takes no input and always answers with
  HTTP 200. It makes no call (the world is unchanged). Its body has exactly the keys
  \<open>status\<close>, \<open>services\<close> and \<open>config\<close>: the status is \<open>healthy\<close> whatever the clients
  are; the services are \<open>openai\<close> and \<open>minio\<close>, each true exactly when the client is
  not nil; the configuration is \<open>port\<close> and \<open>minio_url\<close>, with the values of \<open>config\<close>.
\<close>

theorem health_report:
  "http_status (fst (registerHealthEndpoint_handler g w)) = 200
   \<and> snd (registerHealthEndpoint_handler g w) = w
   \<and> dom (projr (fst (registerHealthEndpoint_handler g w))) =
       {''status'', ''services'', ''config''}
   \<and> status_of (projr (fst (registerHealthEndpoint_handler g w))) = Some ''healthy''
   \<and> services_of (projr (fst (registerHealthEndpoint_handler g w))) =
       [''openai'' \<mapsto> openaiClient g \<noteq> None, ''minio'' \<mapsto> minioClient g \<noteq> None]
   \<and> config_of (projr (fst (registerHealthEndpoint_handler g w))) =
       [''port'' \<mapsto> Port (config g), ''minio_url'' \<mapsto> MinIOURL (config g)]"
proof (intro conjI)
  show "http_status (fst (registerHealthEndpoint_handler g w)) = 200"
    by (simp add: health_result http_status_def)
  show "snd (registerHealthEndpoint_handler g w) = w"
    by (simp add: health_result)
qed (rule health_keys health_status health_services health_config)+

theorem health_report_witness:
  "http_status (fst (registerHealthEndpoint_handler
      (with_minio (scripted_minio (Inl ''connection refused'') None None)) (quiet ()))) = 200
   \<and> status_of (projr (fst (registerHealthEndpoint_handler
      (with_minio (scripted_minio (Inl ''connection refused'') None None)) (quiet ())))) =
       Some ''healthy''
   \<and> services_of (projr (fst (registerHealthEndpoint_handler
      (with_minio (scripted_minio (Inl ''connection refused'') None None)) (quiet ())))) =
       [''openai'' \<mapsto> False, ''minio'' \<mapsto> True]
   \<and> config_of (projr (fst (registerHealthEndpoint_handler
      (with_minio (scripted_minio (Inl ''connection refused'') None None)) (quiet ())))) =
       [''port'' \<mapsto> ''8080'', ''minio_url'' \<mapsto> ''localhost:9000'']
   \<and> calls (snd (registerHealthEndpoint_handler
      (with_minio (scripted_minio (Inl ''connection refused'') None None)) (quiet ()))) = []"
  using health_report
    [where g = "with_minio (scripted_minio (Inl ''connection refused'') None None)"
       and w = "quiet ()"]
  by (simp add: with_minio_def test_config_def quiet_def)

text \<open>
  The body has no service named \<open>completion\<close> or \<open>storage\<close> and no configuration entry
  named \<open>storage_endpoint\<close>.
\<close>

theorem health_keys_counterexample:
  "services_of (projr (fst (registerHealthEndpoint_handler (started no_config) (quiet ()))))
     ''completion'' = None
   \<and> services_of (projr (fst (registerHealthEndpoint_handler (started no_config) (quiet ()))))
     ''storage'' = None
   \<and> config_of (projr (fst (registerHealthEndpoint_handler (started no_config) (quiet ()))))
     ''storage_endpoint'' = None"
  by (simp add: health_services health_config)

section \<open>A storage client that cannot be constructed\<close>

text \<open>
  \<^bold>\<open>C10.\<close> When both storage credentials are non-empty and \<open>minio.New\<close> fails,
  \<open>initClients\<close> returns (it logs the failure and does not end the process) with the
  storage client nil and the configuration unchanged, so the credentials are still
  non-empty. From then on every upload request gets the reply \<open>success: false\<close>,
  \<open>MinIO client not configured\<close>, and the health body reports the service \<open>minio\<close> as
  false.
\<close>

theorem storage_construction_failure_degrades:
  assumes key: "MinIOKey (config g) \<noteq> ''''"
    and secret: "MinIOSecret (config g) \<noteq> ''''"
    and failure: "minio_New (MinIOURL (config g))
                    \<lparr>Creds = NewStaticV4 (MinIOKey (config g)) (MinIOSecret (config g)) '''',
                     Secure = False\<rparr> = Inl err"
  shows "minioClient (fst (initClients openai_NewClient minio_New g)) = None
   \<and> config (fst (initClients openai_NewClient minio_New g)) = config g
   \<and> ''Failed to initialize MinIO client: '' @ err
        \<in> set (snd (initClients openai_NewClient minio_New g))
   \<and> registerFileUploadEndpoint_handler (fst (initClients openai_NewClient minio_New g))
        input w =
       (Inr \<lparr>Success = False, Message = ''MinIO client not configured''\<rparr>, w)
   \<and> services_of (projr (fst (registerHealthEndpoint_handler
        (fst (initClients openai_NewClient minio_New g)) w))) ''minio'' = Some False"
proof -
  have absent: "minioClient (fst (initClients openai_NewClient minio_New g)) = None"
    using assms by (simp add: initClients_def Let_def)
  have same: "config (fst (initClients openai_NewClient minio_New g)) = config g"
    using assms by (simp add: initClients_def Let_def)
  have logged: "''Failed to initialize MinIO client: '' @ err
        \<in> set (snd (initClients openai_NewClient minio_New g))"
    using assms by (simp add: initClients_def Let_def)
  have health: "services_of (projr (fst (registerHealthEndpoint_handler
        (fst (initClients openai_NewClient minio_New g)) w))) ''minio'' = Some False"
    by (simp add: health_services absent)
  from absent same logged health upload_no_client [OF absent] show ?thesis
    by blast
qed

theorem storage_construction_failure_degrades_witness:
  "MinIOKey test_config \<noteq> '''' \<and> MinIOSecret test_config \<noteq> ''''
   \<and> minioClient (fst (initClients (\<lambda>key. scripted_openai (Inr \<lparr>Choices = []\<rparr>)) refusing_New
        \<lparr>config = test_config, openaiClient = None, minioClient = None\<rparr>)) = None
   \<and> registerFileUploadEndpoint_handler
        (fst (initClients (\<lambda>key. scripted_openai (Inr \<lparr>Choices = []\<rparr>)) refusing_New
           \<lparr>config = test_config, openaiClient = None, minioClient = None\<rparr>))
        hello_upload (quiet ()) =
       (Inr \<lparr>Success = False, Message = ''MinIO client not configured''\<rparr>, quiet ())
   \<and> services_of (projr (fst (registerHealthEndpoint_handler
        (fst (initClients (\<lambda>key. scripted_openai (Inr \<lparr>Choices = []\<rparr>)) refusing_New
           \<lparr>config = test_config, openaiClient = None, minioClient = None\<rparr>))
        (quiet ())))) ''minio'' = Some False"
proof -
  let ?g = "\<lparr>config = test_config, openaiClient = None, minioClient = None\<rparr> :: unit globals"
  have key: "MinIOKey (config ?g) \<noteq> ''''" and secret: "MinIOSecret (config ?g) \<noteq> ''''"
    by (simp_all add: test_config_def)
  have failure: "refusing_New (MinIOURL (config ?g))
                    \<lparr>Creds = NewStaticV4 (MinIOKey (config ?g)) (MinIOSecret (config ?g)) '''',
                     Secure = False\<rparr> = Inl ''Endpoint url cannot have fully qualified paths.''"
    by (simp add: refusing_New_def)
  from storage_construction_failure_degrades
         [where g = ?g and minio_New = refusing_New
            and openai_NewClient = "\<lambda>key. scripted_openai (Inr \<lparr>Choices = []\<rparr>)"
            and input = hello_upload and w = "quiet ()", OF key secret failure]
       key secret
  show ?thesis by simp
qed

section \<open>Loading the configuration\<close>

text \<open>
  The environment variables that \<open>initConfig\<close> makes the library read for the five keys,
  the library instance after the calls of \<open>initConfig\<close>, and the keys it knows.
\<close>

lemma env_name_port: "NewReplacer ''.'' ''_'' (ToUpper ''APP_port'') = ''APP_PORT''"
  by code_simp

lemma env_name_minio_url:
  "NewReplacer ''.'' ''_'' (ToUpper ''APP_minio_url'') = ''APP_MINIO_URL''"
  by code_simp

lemma env_name_openai_key:
  "NewReplacer ''.'' ''_'' (ToUpper ''APP_openai_key'') = ''APP_OPENAI_KEY''"
  by code_simp

lemma env_name_minio_key:
  "NewReplacer ''.'' ''_'' (ToUpper ''APP_minio_key'') = ''APP_MINIO_KEY''"
  by code_simp

lemma env_name_minio_secret:
  "NewReplacer ''.'' ''_'' (ToUpper ''APP_minio_secret'') = ''APP_MINIO_SECRET''"
  by code_simp

lemma calls_of_initConfig:
  "SetEnvKeyReplacer (NewReplacer ''.'' ''_'')
     (AutomaticEnv (SetEnvPrefix ''APP''
        (SetDefault ''minio_url'' ''localhost:9000'' (SetDefault ''port'' ''8080''
           (AddConfigPath ''./config'' (AddConfigPath ''.''
              (SetConfigType ''yaml'' (SetConfigName ''config'' viper_New)))))))) =
   configured Map.empty"
  by (simp add: SetEnvKeyReplacer_def AutomaticEnv_def SetEnvPrefix_def SetDefault_def
      AddConfigPath_def SetConfigType_def SetConfigName_def viper_New_def configured_def)

lemma ReadInConfig_configured:
  "snd (ReadInConfig sys (configured Map.empty)) =
     configured (case configFile sys of Inl err \<Rightarrow> Map.empty | Inr settings \<Rightarrow> settings)"
  by (simp add: ReadInConfig_def configured_def split: sum.split)

lemma AllKeys_configured:
  "AllKeys (configured settings) = dom settings \<union> {''port'', ''minio_url''}"
  by (auto simp: AllKeys_def configured_def split: if_splits)

lemma find_key_port:
  "find_key (configured settings) sys ''port'' =
     (case set_env (environ sys) ''APP_PORT'' of
        Some x \<Rightarrow> Some x
      | None \<Rightarrow> (case settings ''port'' of Some y \<Rightarrow> Some y | None \<Rightarrow> Some ''8080''))"
  by (simp add: find_key_def getEnv_def mergeWithEnvPrefix_def configured_def set_env_def
      env_name_port split: option.split)

lemma find_key_minio_url:
  "find_key (configured settings) sys ''minio_url'' =
     (case set_env (environ sys) ''APP_MINIO_URL'' of
        Some x \<Rightarrow> Some x
      | None \<Rightarrow>
          (case settings ''minio_url'' of Some y \<Rightarrow> Some y | None \<Rightarrow> Some ''localhost:9000''))"
  by (simp add: find_key_def getEnv_def mergeWithEnvPrefix_def configured_def set_env_def
      env_name_minio_url split: option.split)

lemma find_key_openai_key:
  "find_key (configured settings) sys ''openai_key'' =
     (case set_env (environ sys) ''APP_OPENAI_KEY'' of
        Some x \<Rightarrow> Some x
      | None \<Rightarrow> settings ''openai_key'')"
  by (simp add: find_key_def getEnv_def mergeWithEnvPrefix_def configured_def set_env_def
      env_name_openai_key split: option.split)

lemma find_key_minio_key:
  "find_key (configured settings) sys ''minio_key'' =
     (case set_env (environ sys) ''APP_MINIO_KEY'' of
        Some x \<Rightarrow> Some x
      | None \<Rightarrow> settings ''minio_key'')"
  by (simp add: find_key_def getEnv_def mergeWithEnvPrefix_def configured_def set_env_def
      env_name_minio_key split: option.split)

lemma find_key_minio_secret:
  "find_key (configured settings) sys ''minio_secret'' =
     (case set_env (environ sys) ''APP_MINIO_SECRET'' of
        Some x \<Rightarrow> Some x
      | None \<Rightarrow> settings ''minio_secret'')"
  by (simp add: find_key_def getEnv_def mergeWithEnvPrefix_def configured_def set_env_def
      env_name_minio_secret split: option.split)

lemma initConfig_result:
  "initConfig sys viper_New cfg =
     (case Unmarshal sys (snd (ReadInConfig sys (configured Map.empty))) cfg of
        (Some err, cfg') \<Rightarrow> Inl (''Failed to unmarshal config: '' @ err)
      | (None, cfg') \<Rightarrow>
          Inr (snd (ReadInConfig sys (configured Map.empty)), cfg',
               (case fst (ReadInConfig sys (configured Map.empty)) of
                  Some err \<Rightarrow>
                    [''Config file not found, using defaults and environment variables: ''
                       @ err]
                | None \<Rightarrow> [])
               @ [''Configuration loaded: Port='' @ Port cfg'
                    @ '', MinIO URL='' @ MinIOURL cfg']))"
  unfolding initConfig_def Let_def calls_of_initConfig
  by (simp add: case_prod_beta)

lemma initConfig_returns: "\<not> isl (initConfig sys viper_New cfg)"
  unfolding initConfig_result by (simp add: Unmarshal_def)

lemma loaded_config_eq:
  "loaded_config sys cfg = snd (Unmarshal sys (snd (ReadInConfig sys (configured Map.empty))) cfg)"
  unfolding initConfig_result by (simp add: Unmarshal_def)

lemma initConfig_Port:
  "Port (loaded_config sys cfg) =
     (case set_env (environ sys) ''APP_PORT'' of
        Some x \<Rightarrow> x
      | None \<Rightarrow> (case file_value (configFile sys) ''port'' of
                   Some y \<Rightarrow> y
                 | None \<Rightarrow> ''8080''))"
  unfolding loaded_config_eq ReadInConfig_configured
  by (simp add: Unmarshal_def AllKeys_configured find_key_port file_value_def
      split: option.split sum.split)

lemma initConfig_MinIOURL:
  "MinIOURL (loaded_config sys cfg) =
     (case set_env (environ sys) ''APP_MINIO_URL'' of
        Some x \<Rightarrow> x
      | None \<Rightarrow> (case file_value (configFile sys) ''minio_url'' of
                   Some y \<Rightarrow> y
                 | None \<Rightarrow> ''localhost:9000''))"
  unfolding loaded_config_eq ReadInConfig_configured
  by (simp add: Unmarshal_def AllKeys_configured find_key_minio_url file_value_def
      split: option.split sum.split)

lemma initConfig_OpenAIKey:
  "OpenAIKey (loaded_config sys cfg) =
     (case file_value (configFile sys) ''openai_key'' of
        None \<Rightarrow> OpenAIKey cfg
      | Some y \<Rightarrow> (case set_env (environ sys) ''APP_OPENAI_KEY'' of
                     Some x \<Rightarrow> x
                   | None \<Rightarrow> y))"
  unfolding loaded_config_eq ReadInConfig_configured
  by (auto simp: Unmarshal_def AllKeys_configured find_key_openai_key file_value_def
      split: option.split sum.split)

lemma initConfig_MinIOKey:
  "MinIOKey (loaded_config sys cfg) =
     (case file_value (configFile sys) ''minio_key'' of
        None \<Rightarrow> MinIOKey cfg
      | Some y \<Rightarrow> (case set_env (environ sys) ''APP_MINIO_KEY'' of
                     Some x \<Rightarrow> x
                   | None \<Rightarrow> y))"
  unfolding loaded_config_eq ReadInConfig_configured
  by (auto simp: Unmarshal_def AllKeys_configured find_key_minio_key file_value_def
      split: option.split sum.split)

lemma initConfig_MinIOSecret:
  "MinIOSecret (loaded_config sys cfg) =
     (case file_value (configFile sys) ''minio_secret'' of
        None \<Rightarrow> MinIOSecret cfg
      | Some y \<Rightarrow> (case set_env (environ sys) ''APP_MINIO_SECRET'' of
                     Some x \<Rightarrow> x
                   | None \<Rightarrow> y))"
  unfolding loaded_config_eq ReadInConfig_configured
  by (auto simp: Unmarshal_def AllKeys_configured find_key_minio_secret file_value_def
      split: option.split sum.split)

text \<open>
  What \<open>initConfig\<close> loads, key by key. The port is the value of the environment variable
  \<open>APP_PORT\<close> when it is set (and not empty), else the value of \<open>port\<close> in the file when
  a file is found and has one, else the default \<open>8080\<close>; the storage endpoint is read
  in the same way from \<open>APP_MINIO_URL\<close>, \<open>minio_url\<close> and the default
  \<open>localhost:9000\<close>. In particular an environment that sets the port to \<open>9090\<close> wins
  over a file that sets it to \<open>8080\<close>. The three keys without a default are loaded only
  when the file has them, and then the environment wins over the file; when the file
  does not have them the field of \<open>config\<close> keeps its value, whatever the environment.
\<close>

theorem initConfig_loads:
  "Port (loaded_config sys cfg) =
       (case set_env (environ sys) ''APP_PORT'' of
          Some x \<Rightarrow> x
        | None \<Rightarrow> (case file_value (configFile sys) ''port'' of
                     Some y \<Rightarrow> y
                   | None \<Rightarrow> ''8080''))
   \<and> MinIOURL (loaded_config sys cfg) =
       (case set_env (environ sys) ''APP_MINIO_URL'' of
          Some x \<Rightarrow> x
        | None \<Rightarrow> (case file_value (configFile sys) ''minio_url'' of
                     Some y \<Rightarrow> y
                   | None \<Rightarrow> ''localhost:9000''))
   \<and> OpenAIKey (loaded_config sys cfg) =
       (case file_value (configFile sys) ''openai_key'' of
          None \<Rightarrow> OpenAIKey cfg
        | Some y \<Rightarrow> (case set_env (environ sys) ''APP_OPENAI_KEY'' of
                       Some x \<Rightarrow> x
                     | None \<Rightarrow> y))
   \<and> MinIOKey (loaded_config sys cfg) =
       (case file_value (configFile sys) ''minio_key'' of
          None \<Rightarrow> MinIOKey cfg
        | Some y \<Rightarrow> (case set_env (environ sys) ''APP_MINIO_KEY'' of
                       Some x \<Rightarrow> x
                     | None \<Rightarrow> y))
   \<and> MinIOSecret (loaded_config sys cfg) =
       (case file_value (configFile sys) ''minio_secret'' of
          None \<Rightarrow> MinIOSecret cfg
        | Some y \<Rightarrow> (case set_env (environ sys) ''APP_MINIO_SECRET'' of
                       Some x \<Rightarrow> x
                     | None \<Rightarrow> y))"
  by (intro conjI)
     (rule initConfig_Port initConfig_MinIOURL initConfig_OpenAIKey initConfig_MinIOKey
        initConfig_MinIOSecret)+

theorem initConfig_loads_scenarios:
  "file_value (configFile override_os) ''port'' = Some ''8080''
   \<and> Port (loaded_config override_os no_config) = ''9090''
   \<and> MinIOURL (loaded_config override_os no_config) = ''localhost:9000''
   \<and> Port (loaded_config bare_os zero_config) = ''8080''
   \<and> MinIOURL (loaded_config bare_os zero_config) = ''localhost:9000''
   \<and> OpenAIKey (loaded_config file_and_env_os zero_config) = ''sk-test''"
  using initConfig_loads [where sys = override_os and cfg = no_config]
    initConfig_loads [where sys = bare_os and cfg = zero_config]
    initConfig_loads [where sys = file_and_env_os and cfg = zero_config]
  by (simp add: override_os_def bare_os_def file_and_env_os_def set_env_def file_value_def)

text \<open>
  \<^bold>\<open>C9.\<close> Configuration loading is to merge the defaults, the optional file and the
  prefixed environment variables, the environment taking precedence. For the port and
  the storage endpoint it does (\<open>initConfig_loads\<close>). For the keys without a default it
  does not: with no configuration file, an environment that sets \<open>APP_PORT\<close>,
  \<open>APP_OPENAI_KEY\<close>, \<open>APP_MINIO_KEY\<close> and \<open>APP_MINIO_SECRET\<close> gives a configuration with
  the port of the environment and with the three credentials empty, so that
  \<open>initClients\<close> then constructs no client.
\<close>

theorem environment_only_credentials_not_loaded:
  "environ env_only_os ''APP_OPENAI_KEY'' = Some ''sk-test''
   \<and> environ env_only_os ''APP_MINIO_KEY'' = Some ''access''
   \<and> environ env_only_os ''APP_MINIO_SECRET'' = Some ''secret''
   \<and> Port (loaded_config env_only_os zero_config) = ''9090''
   \<and> OpenAIKey (loaded_config env_only_os zero_config) = ''''
   \<and> MinIOKey (loaded_config env_only_os zero_config) = ''''
   \<and> MinIOSecret (loaded_config env_only_os zero_config) = ''''
   \<and> openaiClient (started (loaded_config env_only_os zero_config)) = None
   \<and> minioClient (started (loaded_config env_only_os zero_config)) = None"
proof -
  have loaded: "loaded_config env_only_os zero_config =
      \<lparr>Port = ''9090'', OpenAIKey = '''', MinIOURL = ''localhost:9000'',
       MinIOKey = '''', MinIOSecret = ''''\<rparr>"
    by (rule Config.equality)
       (simp_all add: initConfig_Port initConfig_MinIOURL initConfig_OpenAIKey
          initConfig_MinIOKey initConfig_MinIOSecret env_only_os_def zero_config_def
          set_env_def file_value_def)
  show ?thesis
    unfolding loaded by (simp add: env_only_os_def started_def initClients_def)
qed

end
